theory Spec2Isabelle
  imports Complex_Main "HOL-Library.Word"
begin

section \<open>Thrown values, effects and fallible computations\<close>

text \<open>
  A JavaScript \<^verbatim>\<open>throw\<close> may carry any value. The sources only ever ask whether the value
  is an \<^verbatim>\<open>Error\<close> instance (\<^verbatim>\<open>error instanceof Error\<close>), and read its name and message.
\<close>

datatype thrown = ErrorObj string string | NonErrorValue

definition new_Error :: "string \<Rightarrow> thrown" where
  "new_Error msg = ErrorObj ''Error'' msg"

fun is_Error :: "thrown \<Rightarrow> bool" where
  "is_Error (ErrorObj n m) = True"
| "is_Error NonErrorValue = False"

datatype level = LLog | LError

text \<open>
  Everything an operation does to the outside world, in program order: the diagnostic
  lines (level and step name; the payload is instrumentation only) and every call of a
  platform capability, with the handles it is applied to. Writing a diagnostic line is
  taken to succeed always.
\<close>

datatype effect =
    Log level string
  | CallGetUserMedia
  | CallNewAudioContext
  | CallResume nat
  | CallCreateMediaStreamDestination nat
  | CallCreateMediaStreamSource nat nat
  | CallConnect nat nat
  | CallIsTypeSupported string
  | CallNewMediaRecorder nat "string option"
  | CallRecorderStart nat
  | CallRecorderStop nat
  | CallDisconnect nat nat
  | CallTrackStop nat
  | CallContextClose nat
  | CallAtob string
  | CallDecodeAudioData
  | CallCreateBufferSource nat
  | CallConnectOutput nat
  | CallSourceStart nat
  | CallImport string

text \<open>
  A computation either throws or returns, and leaves the effects it performed up to
  that point. \<open>and_then\<close> is statement sequencing, \<open>try_catch\<close> is
  \<^verbatim>\<open>try { ... } catch (error) { ... }\<close>.
\<close>

type_synonym 'a comp = "(thrown + 'a) \<times> effect list"

definition ret :: "'a \<Rightarrow> 'a comp" where
  "ret x = (Inr x, [])"

definition throw :: "thrown \<Rightarrow> 'a comp" where
  "throw e = (Inl e, [])"

definition call :: "effect \<Rightarrow> thrown + 'a \<Rightarrow> 'a comp" where
  "call ev r = (r, [ev])"

definition recorderLog :: "level \<Rightarrow> string \<Rightarrow> unit comp" where
  "recorderLog l step = (Inr (), [Log l step])"

definition and_then :: "'a comp \<Rightarrow> ('a \<Rightarrow> 'b comp) \<Rightarrow> 'b comp" where
  "and_then m f =
     (case m of
        (Inl e, fx) \<Rightarrow> (Inl e, fx)
      | (Inr x, fx) \<Rightarrow> (case f x of (r, fx') \<Rightarrow> (r, fx @ fx')))"

definition try_catch :: "'a comp \<Rightarrow> (thrown \<Rightarrow> 'a comp) \<Rightarrow> 'a comp" where
  "try_catch m h =
     (case m of
        (Inl e, fx) \<Rightarrow> (case h e of (r, fx') \<Rightarrow> (r, fx @ fx'))
      | (Inr x, fx) \<Rightarrow> (Inr x, fx))"

section \<open>The session recorder (src/lib/session-recorder.ts)\<close>

subsection \<open>Data\<close>

type_synonym byte = "8 word"

text \<open>A \<^verbatim>\<open>Blob\<close>: its bytes and the \<^verbatim>\<open>type\<close> option given to its constructor.\<close>

record blob =
  blob_bytes :: "byte list"
  blob_type :: string

definition blob_size :: "blob \<Rightarrow> nat" where
  "blob_size b = length (blob_bytes b)"

definition new_Blob :: "blob list \<Rightarrow> string \<Rightarrow> blob" where
  "new_Blob parts ty = \<lparr>blob_bytes = concat (map blob_bytes parts), blob_type = ty\<rparr>"

record SessionRecordingResult =
  res_blob :: blob
  res_mimeType :: string
  res_durationMs :: int

record PlaybackResult =
  play_durationMs :: int

record media_stream =
  stream_id :: nat
  stream_tracks :: "nat list"

datatype recording_state = Inactive | Recording | Paused

record media_recorder =
  rec_id :: nat
  rec_state :: recording_state
  rec_mimeType :: string

record audio_buffer =
  buf_duration :: real

text \<open>The private fields of \<^verbatim>\<open>class SessionRecorder\<close>; \<open>None\<close> is \<^verbatim>\<open>null\<close>.\<close>

record session_recorder =
  audioCtx :: "nat option"
  destination :: "nat option"
  micStream :: "media_stream option"
  micSource :: "nat option"
  recorder :: "media_recorder option"
  chunks :: "blob list"
  mimeType :: string
  startedAt :: real

definition createSessionRecorder :: session_recorder where
  "createSessionRecorder =
     \<lparr>audioCtx = None, destination = None, micStream = None, micSource = None,
      recorder = None, chunks = [], mimeType = ''audio/webm'', startedAt = 0\<rparr>"

text \<open>
  The platform, as one invocation of an operation meets it: what each capability
  answers when it is called. \<open>Inl\<close> is a thrown value or a rejected promise (an
  \<^verbatim>\<open>await\<close> turns the rejection into a throw).
\<close>

record platform =
  hasWindow :: bool
  getUserMedia :: "thrown + media_stream"
  newAudioContext :: "thrown + nat"
  ctxResume :: "nat \<Rightarrow> thrown + unit"
  createMediaStreamDestination :: "nat \<Rightarrow> thrown + nat"
  createMediaStreamSource :: "nat \<Rightarrow> nat \<Rightarrow> thrown + nat"
  connect :: "nat \<Rightarrow> nat \<Rightarrow> thrown + unit"
  isTypeSupported :: "string \<Rightarrow> thrown + bool"
  newMediaRecorder :: "nat \<Rightarrow> string option \<Rightarrow> thrown + nat \<times> string"
  recorderStart :: "nat \<Rightarrow> thrown + unit"
  recorderStop :: "nat \<Rightarrow> thrown + unit"
  performanceNow :: real
  disconnect :: "nat \<Rightarrow> nat \<Rightarrow> thrown + unit"
  trackStop :: "nat \<Rightarrow> thrown + unit"
  ctxClose :: "nat \<Rightarrow> thrown + unit"
  hasAtob :: bool
  atob :: "string \<Rightarrow> thrown + 16 word list"
  decodeAudioData :: "byte list \<Rightarrow> thrown + audio_buffer"
  createBufferSource :: "nat \<Rightarrow> thrown + nat"
  connectOutput :: "nat \<Rightarrow> thrown + unit"
  sourceStart :: "nat \<Rightarrow> thrown + unit"

definition SUPPORTED_MIME_TYPES :: "string list" where
  "SUPPORTED_MIME_TYPES =
     [''audio/webm;codecs=opus'', ''audio/webm'', ''audio/ogg;codecs=opus'', ''audio/ogg'']"

text \<open>\<^verbatim>\<open>Math.round\<close>: the nearest integer, halves rounded up.\<close>

definition Math_round :: "real \<Rightarrow> int" where
  "Math_round x = \<lfloor>x + 1 / 2\<rfloor>"

subsection \<open>cleanup\<close>

text \<open>\<^verbatim>\<open>this.micStream.getTracks().forEach((track) => track.stop())\<close>\<close>

fun stop_tracks :: "platform \<Rightarrow> nat list \<Rightarrow> unit comp" where
  "stop_tracks P [] = ret ()"
| "stop_tracks P (t # ts) =
     and_then (call (CallTrackStop t) (trackStop P t)) (\<lambda>_. stop_tracks P ts)"

definition cleanup_disconnect :: "platform \<Rightarrow> session_recorder \<Rightarrow> unit comp" where
  "cleanup_disconnect P s =
     try_catch
       (case (micSource s, destination s) of
          (Some src, Some dst) \<Rightarrow>
            and_then (call (CallDisconnect src dst) (disconnect P src dst))
              (\<lambda>_. recorderLog LLog ''cleanup:mic-disconnected'')
        | _ \<Rightarrow> ret ())
       (\<lambda>error. recorderLog LError ''cleanup:mic-disconnect-failed'')"

definition cleanup_tracks :: "platform \<Rightarrow> session_recorder \<Rightarrow> unit comp" where
  "cleanup_tracks P s =
     (case micStream s of
        Some stream \<Rightarrow>
          try_catch
            (and_then (stop_tracks P (stream_tracks stream))
               (\<lambda>_. recorderLog LLog ''cleanup:tracks-stopped''))
            (\<lambda>error. recorderLog LError ''cleanup:stop-tracks-failed'')
      | None \<Rightarrow> ret ())"

definition cleanup_context :: "platform \<Rightarrow> session_recorder \<Rightarrow> unit comp" where
  "cleanup_context P s =
     (case audioCtx s of
        Some ctx \<Rightarrow>
          try_catch
            (and_then (call (CallContextClose ctx) (ctxClose P ctx))
               (\<lambda>_. recorderLog LLog ''cleanup:context-closed''))
            (\<lambda>error. recorderLog LError ''cleanup:context-close-failed'')
      | None \<Rightarrow> ret ())"

definition cleanup_calls :: "platform \<Rightarrow> session_recorder \<Rightarrow> unit comp" where
  "cleanup_calls P s =
     and_then (recorderLog LLog ''cleanup:begin'') (\<lambda>_.
     and_then (cleanup_disconnect P s) (\<lambda>_.
     and_then (cleanup_tracks P s) (\<lambda>_.
     cleanup_context P s)))"

definition reset_fields :: "session_recorder \<Rightarrow> session_recorder" where
  "reset_fields s =
     s\<lparr>audioCtx := None, destination := None, micStream := None, micSource := None,
       recorder := None, chunks := [], startedAt := 0\<rparr>"

text \<open>
  The final assignments of \<^verbatim>\<open>cleanup\<close> run only if the guarded part before them
  did not throw.
\<close>

definition cleanup :: "platform \<Rightarrow> session_recorder \<Rightarrow> (thrown + unit) \<times> session_recorder \<times> effect list" where
  "cleanup P s =
     (case cleanup_calls P s of
        (Inl e, fx) \<Rightarrow> (Inl e, s, fx)
      | (Inr u, fx) \<Rightarrow> (Inr (), reset_fields s, fx))"

subsection \<open>start\<close>

text \<open>
  \<^verbatim>\<open>SUPPORTED_MIME_TYPES.find((candidate) => { try { ... } catch { return false } })\<close>:
  the candidates are probed from the front; a probe that throws counts as unsupported;
  the first hit ends the search.
\<close>

definition probe_mime :: "platform \<Rightarrow> string \<Rightarrow> bool comp" where
  "probe_mime P candidate =
     try_catch
       (and_then (call (CallIsTypeSupported candidate) (isTypeSupported P candidate)) (\<lambda>supported.
        and_then (recorderLog LLog ''start:mime-candidate'') (\<lambda>_.
        ret supported)))
       (\<lambda>error.
        and_then (recorderLog LError ''start:mime-check-failed'') (\<lambda>_.
        ret False))"

fun find_mime :: "platform \<Rightarrow> string list \<Rightarrow> string option comp" where
  "find_mime P [] = ret None"
| "find_mime P (candidate # rest) =
     and_then (probe_mime P candidate) (\<lambda>hit.
       if hit then ret (Some candidate) else find_mime P rest)"

text \<open>Truthiness of a value that is a string or \<^verbatim>\<open>undefined\<close>.\<close>

fun truthy :: "string option \<Rightarrow> bool" where
  "truthy None = False"
| "truthy (Some m) = (m \<noteq> [])"

text \<open>The locals of the \<^verbatim>\<open>try\<close> block, up to the construction of the encoder.\<close>

record acquired =
  acq_stream :: media_stream
  acq_ctx :: nat
  acq_destination :: nat
  acq_micSource :: nat
  acq_supportedMime :: "string option"
  acq_recorder :: media_recorder

definition start_acquire :: "platform \<Rightarrow> acquired comp" where
  "start_acquire P =
     and_then (call CallGetUserMedia (getUserMedia P)) (\<lambda>stream.
     and_then (recorderLog LLog ''start:user-media-granted'') (\<lambda>_.
     and_then (call CallNewAudioContext (newAudioContext P)) (\<lambda>ctx.
     and_then (call (CallResume ctx) (ctxResume P ctx)) (\<lambda>_.
     and_then (recorderLog LLog ''start:audio-context-ready'') (\<lambda>_.
     and_then (call (CallCreateMediaStreamDestination ctx) (createMediaStreamDestination P ctx)) (\<lambda>dst.
     and_then (call (CallCreateMediaStreamSource ctx (stream_id stream))
                 (createMediaStreamSource P ctx (stream_id stream))) (\<lambda>src.
     and_then (call (CallConnect src dst) (connect P src dst)) (\<lambda>_.
     and_then (recorderLog LLog ''start:microphone-connected'') (\<lambda>_.
     and_then (find_mime P SUPPORTED_MIME_TYPES) (\<lambda>supportedMime.
     and_then (call (CallNewMediaRecorder dst (if truthy supportedMime then supportedMime else None))
                 (newMediaRecorder P dst (if truthy supportedMime then supportedMime else None))) (\<lambda>made.
     ret \<lparr>acq_stream = stream, acq_ctx = ctx, acq_destination = dst, acq_micSource = src,
          acq_supportedMime = supportedMime,
          acq_recorder = \<lparr>rec_id = fst made, rec_state = Inactive, rec_mimeType = snd made\<rparr>\<rparr>)))))))))))"

text \<open>\<^verbatim>\<open>supportedMime || recorder.mimeType || 'audio/webm'\<close>\<close>

definition negotiated_mime :: "string option \<Rightarrow> string \<Rightarrow> string" where
  "negotiated_mime supportedMime recorderMime =
     (case supportedMime of
        Some m \<Rightarrow> if m \<noteq> [] then m else if recorderMime \<noteq> [] then recorderMime else ''audio/webm''
      | None \<Rightarrow> if recorderMime \<noteq> [] then recorderMime else ''audio/webm'')"

definition assign_fields :: "acquired \<Rightarrow> real \<Rightarrow> session_recorder \<Rightarrow> session_recorder" where
  "assign_fields a now s =
     s\<lparr>audioCtx := Some (acq_ctx a),
       destination := Some (acq_destination a),
       micStream := Some (acq_stream a),
       micSource := Some (acq_micSource a),
       recorder := Some (acq_recorder a),
       mimeType := negotiated_mime (acq_supportedMime a) (rec_mimeType (acq_recorder a)),
       chunks := [],
       startedAt := now\<rparr>"

text \<open>
  The body of the \<^verbatim>\<open>try\<close> block. The fields are assigned only once the encoder
  exists; a successful \<^verbatim>\<open>recorder.start()\<close> puts the encoder into the recording state.
\<close>

definition start_try :: "platform \<Rightarrow> session_recorder \<Rightarrow> (thrown + unit) \<times> session_recorder \<times> effect list" where
  "start_try P s =
     (case start_acquire P of
        (Inl e, fx) \<Rightarrow> (Inl e, s, fx)
      | (Inr a, fx) \<Rightarrow>
          (let s1 = assign_fields a (performanceNow P) s;
               r = acq_recorder a
           in case recorderStart P (rec_id r) of
                Inl e \<Rightarrow> (Inl e, s1, fx @ [CallRecorderStart (rec_id r)])
              | Inr u \<Rightarrow>
                  (Inr (), s1\<lparr>recorder := Some (r\<lparr>rec_state := Recording\<rparr>)\<rparr>,
                   fx @ [CallRecorderStart (rec_id r), Log LLog ''start:recording-began''])))"

definition already_recording :: "session_recorder \<Rightarrow> bool" where
  "already_recording s =
     (case recorder s of Some r \<Rightarrow> rec_state r = Recording | None \<Rightarrow> False)"

definition rethrown :: "thrown \<Rightarrow> thrown" where
  "rethrown error =
     (if is_Error error then error else new_Error ''Session recorder failed to start.'')"

definition start :: "platform \<Rightarrow> session_recorder \<Rightarrow> (thrown + unit) \<times> session_recorder \<times> effect list" where
  "start P s =
     (if \<not> hasWindow P then (Inl (new_Error ''SessionRecorder unavailable''), s, [])
      else if already_recording s then (Inr (), s, [Log LLog ''start:already-recording''])
      else
        (case start_try P s of
           (Inr u, s1, fx) \<Rightarrow> (Inr (), s1, Log LLog ''start:requesting-user-media'' # fx)
         | (Inl error, s1, fx) \<Rightarrow>
             (case cleanup P s1 of
                (Inl e2, s2, fx2) \<Rightarrow>
                  (Inl e2, s2,
                   Log LLog ''start:requesting-user-media'' # fx @ Log LError ''start:failed'' # fx2)
              | (Inr u, s2, fx2) \<Rightarrow>
                  (Inl (rethrown error), s2,
                   Log LLog ''start:requesting-user-media'' # fx @ Log LError ''start:failed'' # fx2))))"

text \<open>The \<^verbatim>\<open>ondataavailable\<close> handler registered by \<^verbatim>\<open>start\<close>; \<open>None\<close> is an event without data.\<close>

definition ondataavailable :: "blob option \<Rightarrow> session_recorder \<Rightarrow> session_recorder" where
  "ondataavailable data s =
     (case data of
        Some d \<Rightarrow> if blob_size d \<noteq> 0 then s\<lparr>chunks := chunks s @ [d]\<rparr> else s
      | None \<Rightarrow> s)"

subsection \<open>stop\<close>

text \<open>
  \<^verbatim>\<open>stop\<close> is asynchronous. Its synchronous part either throws, resolves at once, or
  registers \<^verbatim>\<open>onstop\<close> and asks the encoder to stop; the encoder then turns inactive,
  delivers its outstanding data events and fires the stop event, whose handler
  resolves the promise.
\<close>

datatype 'a settled = Rejected thrown | Fulfilled 'a | Pending

definition empty_result :: "session_recorder \<Rightarrow> SessionRecordingResult" where
  "empty_result s =
     \<lparr>res_blob = new_Blob [] (mimeType s), res_mimeType = mimeType s, res_durationMs = 0\<rparr>"

definition stop_request :: "platform \<Rightarrow> session_recorder \<Rightarrow> SessionRecordingResult settled \<times> session_recorder \<times> effect list" where
  "stop_request P s =
     (case recorder s of
        None \<Rightarrow> (Rejected (new_Error ''Recorder not started''), s, [])
      | Some r \<Rightarrow>
          if rec_state r = Inactive then (Fulfilled (empty_result s), s, [])
          else
            (case recorderStop P (rec_id r) of
               Inr u \<Rightarrow>
                 (Pending, s\<lparr>recorder := Some (r\<lparr>rec_state := Inactive\<rparr>)\<rparr>,
                  [CallRecorderStop (rec_id r), Log LLog ''stop:requested''])
             | Inl error \<Rightarrow>
                 (case cleanup P s of
                    (Inl e2, s2, fx2) \<Rightarrow>
                      (Rejected e2, s2, CallRecorderStop (rec_id r) # Log LError ''stop:failed'' # fx2)
                  | (Inr u, s2, fx2) \<Rightarrow>
                      (Fulfilled (empty_result s2), s2,
                       CallRecorderStop (rec_id r) # Log LError ''stop:failed'' # fx2))))"

definition onstop :: "platform \<Rightarrow> session_recorder \<Rightarrow> SessionRecordingResult settled \<times> session_recorder \<times> effect list" where
  "onstop P s =
     (let blob = new_Blob (chunks s) (mimeType s);
          durationMs =
            (if startedAt s \<noteq> 0 then max 0 (Math_round (performanceNow P - startedAt s)) else 0)
      in case cleanup P s of
           (Inl e, s2, fx2) \<Rightarrow> (Pending, s2, fx2)
         | (Inr u, s2, fx2) \<Rightarrow>
             (Fulfilled \<lparr>res_blob = blob, res_mimeType = mimeType s2, res_durationMs = durationMs\<rparr>,
              s2, fx2))"

text \<open>
  The whole of \<^verbatim>\<open>await recorder.stop()\<close>: \<open>events\<close> are the data events the encoder
  delivers between the stop request and its stop event.
\<close>

definition stop :: "platform \<Rightarrow> blob option list \<Rightarrow> session_recorder \<Rightarrow> SessionRecordingResult settled \<times> session_recorder \<times> effect list" where
  "stop P events s =
     (case stop_request P s of
        (Pending, s1, fx) \<Rightarrow>
          (case onstop P (foldl (\<lambda>st ev. ondataavailable ev st) s1 events) of
             (r, s2, fx2) \<Rightarrow> (r, s2, fx @ fx2))
      | (r, s1, fx) \<Rightarrow> (r, s1, fx))"

subsection \<open>cancel\<close>

definition cancel_stop :: "platform \<Rightarrow> session_recorder \<Rightarrow> unit comp" where
  "cancel_stop P s =
     (case recorder s of
        Some r \<Rightarrow>
          if rec_state r \<noteq> Inactive then
            try_catch
              (and_then (call (CallRecorderStop (rec_id r)) (recorderStop P (rec_id r)))
                 (\<lambda>_. recorderLog LLog ''cancel:stop-requested''))
              (\<lambda>error. recorderLog LError ''cancel:stop-failed'')
          else ret ()
      | None \<Rightarrow> ret ())"

definition cancel :: "platform \<Rightarrow> session_recorder \<Rightarrow> (thrown + unit) \<times> session_recorder \<times> effect list" where
  "cancel P s =
     (case cancel_stop P s of
        (Inl e, fx) \<Rightarrow> (Inl e, s, fx)
      | (Inr u, fx) \<Rightarrow> (case cleanup P s of (r, s2, fx2) \<Rightarrow> (r, s2, fx @ fx2)))"

subsection \<open>playAssistantBase64\<close>

definition base64ToArrayBuffer :: "platform \<Rightarrow> string \<Rightarrow> byte list comp" where
  "base64ToArrayBuffer P base64 =
     (if \<not> hasAtob P then
        and_then (recorderLog LError ''decode:missing-atob'')
          (\<lambda>_. throw (new_Error ''Base64 decoding unavailable in this environment''))
      else
        and_then (call (CallAtob base64) (atob P base64)) (\<lambda>binary.
        and_then (recorderLog LLog ''decode:converted'') (\<lambda>_.
        ret (map ucast binary))))"

definition playAudioBuffer :: "platform \<Rightarrow> session_recorder \<Rightarrow> audio_buffer \<Rightarrow> PlaybackResult comp" where
  "playAudioBuffer P s audioBuffer =
     (case (audioCtx s, destination s) of
        (Some ctx, Some dst) \<Rightarrow>
          and_then (call (CallCreateBufferSource ctx) (createBufferSource P ctx)) (\<lambda>source.
          and_then (call (CallConnectOutput source) (connectOutput P source)) (\<lambda>_.
          and_then (call (CallConnect source dst) (connect P source dst)) (\<lambda>_.
          try_catch
            (and_then (call (CallSourceStart source) (sourceStart P source)) (\<lambda>_.
             and_then (recorderLog LLog ''play:start-requested'') (\<lambda>_.
             ret \<lparr>play_durationMs = Math_round (buf_duration audioBuffer * 1000)\<rparr>)))
            (\<lambda>err.
             and_then (recorderLog LError ''play:start-failed'') (\<lambda>_.
             throw (if is_Error err then err else new_Error ''play_failed''))))))
      | _ \<Rightarrow> throw (new_Error ''Recorder not started''))"

definition playAssistantBase64 :: "platform \<Rightarrow> string \<Rightarrow> string option \<Rightarrow> session_recorder \<Rightarrow> PlaybackResult comp" where
  "playAssistantBase64 P base64 mime s =
     (case (audioCtx s, destination s) of
        (Some ctx, Some dst) \<Rightarrow>
          and_then (call (CallResume ctx) (ctxResume P ctx)) (\<lambda>_.
          and_then (recorderLog LLog ''play:decoding-audio'') (\<lambda>_.
          and_then (base64ToArrayBuffer P base64) (\<lambda>arrayBuffer.
          and_then (call CallDecodeAudioData (decodeAudioData P arrayBuffer)) (\<lambda>audioBuffer.
          and_then (recorderLog LLog ''play:decoded'') (\<lambda>_.
          playAudioBuffer P s audioBuffer)))))
      | _ \<Rightarrow>
          and_then (recorderLog LError ''play:missing-context'')
            (\<lambda>_. throw (new_Error ''Recorder not started'')))"

section \<open>The audio bridge (src/lib/audio-bridge.ts)\<close>

record RecordResult =
  rr_blob :: blob
  rr_durationMs :: real
  rr_started :: bool
  rr_stopReason :: string

text \<open>
  What a dynamically imported module exposes under the three names the bridge reads.
  \<open>None\<close>: \<^verbatim>\<open>typeof mod.f !== 'function'\<close>. A helper may itself throw or reject.
\<close>

record 'a audio_module =
  mod_calibrateRMS :: "(real \<Rightarrow> thrown + real) option"
  mod_recordUntilSilence :: "('a \<Rightarrow> thrown + RecordResult) option"
  mod_blobToBase64 :: "(blob \<Rightarrow> thrown + string) option"

definition logAudioBridgeDiagnostic :: "level \<Rightarrow> string \<Rightarrow> unit comp" where
  "logAudioBridgeDiagnostic l step = (Inr (), [Log l step])"

definition import_exhausted_message :: string where
  "import_exhausted_message =
     ''Audio helpers unavailable after attempting legacy module imports. Verify build includes src/lib/audio.js.''"

text \<open>The \<^verbatim>\<open>for (const candidate of candidates)\<close> loop of \<^verbatim>\<open>getModule\<close> and what follows it.\<close>

fun getModule_from :: "(string \<Rightarrow> thrown + 'm) \<Rightarrow> string list \<Rightarrow> 'm comp" where
  "getModule_from imp [] =
     and_then (logAudioBridgeDiagnostic LError ''import-exhausted'')
       (\<lambda>_. throw (new_Error import_exhausted_message))"
| "getModule_from imp (candidate # rest) =
     and_then (logAudioBridgeDiagnostic LLog ''attempt-import'') (\<lambda>_.
     and_then
       (try_catch
          (and_then (call (CallImport candidate) (imp candidate)) (\<lambda>md.
           and_then (logAudioBridgeDiagnostic LLog ''import-success'') (\<lambda>_.
           ret (Some md))))
          (\<lambda>error.
           and_then (logAudioBridgeDiagnostic LError ''import-failed'') (\<lambda>_.
           ret None)))
       (\<lambda>found. case found of Some md \<Rightarrow> ret md | None \<Rightarrow> getModule_from imp rest))"

definition getModule :: "(string \<Rightarrow> thrown + 'm) \<Rightarrow> 'm comp" where
  "getModule imp = getModule_from imp [''../src/lib/audio.js'', ''../src/lib/audio'']"

text \<open>\<^verbatim>\<open>calibrateRMS(seconds = 2.0)\<close>: \<open>None\<close> is a call without the argument.\<close>

definition calibrateRMS :: "(string \<Rightarrow> thrown + 'a audio_module) \<Rightarrow> real option \<Rightarrow> real comp" where
  "calibrateRMS imp seconds =
     and_then (getModule imp) (\<lambda>md.
       case mod_calibrateRMS md of
         Some f \<Rightarrow> (f (case seconds of Some x \<Rightarrow> x | None \<Rightarrow> 2), [])
       | None \<Rightarrow> ret 0)"

definition recordUntilSilence :: "(string \<Rightarrow> thrown + 'a audio_module) \<Rightarrow> 'a \<Rightarrow> RecordResult comp" where
  "recordUntilSilence imp args =
     and_then (getModule imp) (\<lambda>md.
       case mod_recordUntilSilence md of
         None \<Rightarrow> throw (new_Error ''Audio recording unavailable'')
       | Some f \<Rightarrow> (f args, []))"

definition blobToBase64 :: "(string \<Rightarrow> thrown + 'a audio_module) \<Rightarrow> blob \<Rightarrow> string comp" where
  "blobToBase64 imp b =
     and_then (getModule imp) (\<lambda>md.
       case mod_blobToBase64 md of
         Some f \<Rightarrow> (f b, [])
       | None \<Rightarrow> ret [])"

section \<open>The pull-request script (src/scripts/create-pr.mjs)\<close>

text \<open>
  \<^verbatim>\<open>String.prototype.trim\<close> and \<^verbatim>\<open>String.prototype.toLowerCase\<close> are built-ins of the
  runtime; \<^verbatim>\<open>requireEnv\<close> is modelled over whatever they compute.
\<close>

record js_strings =
  str_trim :: "string \<Rightarrow> string"
  str_toLowerCase :: "string \<Rightarrow> string"

definition placeholder_values :: "string list" where
  "placeholder_values = [''default'', ''changeme'', ''placeholder'']"

definition requireEnv :: "js_strings \<Rightarrow> (string \<rightharpoonup> string) \<Rightarrow> string \<Rightarrow> thrown + string" where
  "requireEnv rt env name =
     (case env name of
        None \<Rightarrow> Inl (new_Error (''Missing required environment variable: '' @ name))
      | Some raw \<Rightarrow>
          (let v = str_trim rt raw in
           if length v = 0 then
             Inl (new_Error (''Environment variable '' @ name @ '' is empty''))
           else
             (let lowered = str_toLowerCase rt v in
              if lowered \<in> set placeholder_values then
                Inl (new_Error (''Environment variable '' @ name @
                                '' is using a placeholder value: '' @ v))
              else Inr v)))"

record pr_settings =
  githubToken :: string
  apiUrl :: string
  owner :: string
  repo :: string
  base :: string
  head :: string
  title :: string
  body :: string
  remote :: string
  draftFlag :: "string option"
  isDraft :: bool

definition or_else :: "thrown + 'a \<Rightarrow> ('a \<Rightarrow> thrown + 'b) \<Rightarrow> thrown + 'b" where
  "or_else r f = (case r of Inl e \<Rightarrow> Inl e | Inr x \<Rightarrow> f x)"

text \<open>
  \<^verbatim>\<open>main\<close>: the nine required variables are validated in this order, the optional
  \<^verbatim>\<open>PR_DRAFT\<close> is read, and the version-control and REST steps follow. Those steps run
  external processes and network requests; they are the parameter \<open>rest\<close>.
\<close>

definition main :: "js_strings \<Rightarrow> (string \<rightharpoonup> string) \<Rightarrow> (pr_settings \<Rightarrow> thrown + unit) \<Rightarrow> thrown + unit" where
  "main rt env rest =
     or_else (requireEnv rt env ''GITHUB_TOKEN'') (\<lambda>githubToken'.
     or_else (requireEnv rt env ''GITHUB_API_URL'') (\<lambda>apiUrl'.
     or_else (requireEnv rt env ''GIT_REPO_OWNER'') (\<lambda>owner'.
     or_else (requireEnv rt env ''GIT_REPO_NAME'') (\<lambda>repo'.
     or_else (requireEnv rt env ''PR_BASE'') (\<lambda>base'.
     or_else (requireEnv rt env ''PR_HEAD'') (\<lambda>head'.
     or_else (requireEnv rt env ''PR_TITLE'') (\<lambda>title'.
     or_else (requireEnv rt env ''PR_BODY'') (\<lambda>body'.
     or_else (requireEnv rt env ''GIT_REMOTE_NAME'') (\<lambda>remote'.
       (let draftFlag' =
              (case env ''PR_DRAFT'' of
                 Some d \<Rightarrow> if d \<noteq> [] then Some (str_toLowerCase rt (str_trim rt d)) else None
               | None \<Rightarrow> None)
        in rest \<lparr>githubToken = githubToken', apiUrl = apiUrl', owner = owner', repo = repo',
                 base = base', head = head', title = title', body = body', remote = remote',
                 draftFlag = draftFlag', isDraft = (draftFlag' = Some ''true'')\<rparr>))))))))))"

text \<open>
  \<^verbatim>\<open>main().catch(... process.exit(1))\<close>: a rejection ends the process with status 1; a
  run that completes leaves the process to end with status 0.
\<close>

definition exit_status :: "js_strings \<Rightarrow> (string \<rightharpoonup> string) \<Rightarrow> (pr_settings \<Rightarrow> thrown + unit) \<Rightarrow> nat" where
  "exit_status rt env rest = (case main rt env rest of Inl e \<Rightarrow> 1 | Inr u \<Rightarrow> 0)"

definition required_names :: "string list" where
  "required_names =
     [''GITHUB_TOKEN'', ''GITHUB_API_URL'', ''GIT_REPO_OWNER'', ''GIT_REPO_NAME'', ''PR_BASE'',
      ''PR_HEAD'', ''PR_TITLE'', ''PR_BODY'', ''GIT_REMOTE_NAME'']"

text \<open>
  The two built-ins on ASCII text, for evaluating the script on concrete environments:
  white space is tab, line feed, vertical tab, form feed, carriage return and space;
  lowering maps \<open>A\<close>..\<open>Z\<close> to \<open>a\<close>..\<open>z\<close>.
\<close>

definition ascii_space :: "char \<Rightarrow> bool" where
  "ascii_space c = ((of_char c :: nat) \<in> {9, 10, 11, 12, 13, 32})"

definition ascii_trim :: "string \<Rightarrow> string" where
  "ascii_trim str = rev (dropWhile ascii_space (rev (dropWhile ascii_space str)))"

definition ascii_lower_char :: "char \<Rightarrow> char" where
  "ascii_lower_char c =
     (let n = (of_char c :: nat) in if 65 \<le> n \<and> n \<le> 90 then char_of (n + 32) else c)"

definition ascii_strings :: js_strings where
  "ascii_strings = \<lparr>str_trim = ascii_trim, str_toLowerCase = map ascii_lower_char\<rparr>"

section \<open>Specification-side notions and concrete inputs\<close>

text \<open>A candidate format is supported when the probe returns \<^verbatim>\<open>true\<close> (and does not throw).\<close>

definition supported :: "platform \<Rightarrow> string \<Rightarrow> bool" where
  "supported P candidate = (isTypeSupported P candidate = Inr True)"

text \<open>
  The platform lets every sub-step of \<^verbatim>\<open>start\<close> succeed, handing out the given stream,
  context, destination, source and encoder (with its own \<^verbatim>\<open>mimeType\<close>). Nothing is
  asked of the format probes.
\<close>

definition grants :: "platform \<Rightarrow> media_stream \<Rightarrow> nat \<Rightarrow> nat \<Rightarrow> nat \<Rightarrow> nat \<Rightarrow> string \<Rightarrow> bool" where
  "grants P stream ctx dst src rid rmime =
     (hasWindow P \<and> getUserMedia P = Inr stream \<and> newAudioContext P = Inr ctx \<and>
      ctxResume P ctx = Inr () \<and> createMediaStreamDestination P ctx = Inr dst \<and>
      createMediaStreamSource P ctx (stream_id stream) = Inr src \<and>
      connect P src dst = Inr () \<and>
      newMediaRecorder P dst (find (supported P) SUPPORTED_MIME_TYPES) = Inr (rid, rmime) \<and>
      recorderStart P rid = Inr ())"

text \<open>The state a successful \<^verbatim>\<open>start\<close> leaves on such a platform.\<close>

definition started_state :: "platform \<Rightarrow> media_stream \<Rightarrow> nat \<Rightarrow> nat \<Rightarrow> nat \<Rightarrow> nat \<Rightarrow> string \<Rightarrow> session_recorder \<Rightarrow> session_recorder" where
  "started_state P stream ctx dst src rid rmime s =
     s\<lparr>audioCtx := Some ctx, destination := Some dst, micStream := Some stream,
       micSource := Some src,
       recorder := Some \<lparr>rec_id = rid, rec_state = Recording, rec_mimeType = rmime\<rparr>,
       mimeType := negotiated_mime (find (supported P) SUPPORTED_MIME_TYPES) rmime,
       chunks := [], startedAt := performanceNow P\<rparr>"

definition handles_released :: "session_recorder \<Rightarrow> bool" where
  "handles_released s =
     (audioCtx s = None \<and> destination s = None \<and> micStream s = None \<and>
      micSource s = None \<and> recorder s = None)"





text \<open>
  A platform on which everything succeeds; it supports Opus-in-Ogg only. The stream it
  hands out has the one track 10.
\<close>

definition cooperative_platform :: platform where
  "cooperative_platform =
     \<lparr>hasWindow = True,
      getUserMedia = Inr \<lparr>stream_id = 1, stream_tracks = [10]\<rparr>,
      newAudioContext = Inr 2,
      ctxResume = (\<lambda>ctx. Inr ()),
      createMediaStreamDestination = (\<lambda>ctx. Inr 3),
      createMediaStreamSource = (\<lambda>ctx stream. Inr 4),
      connect = (\<lambda>src dst. Inr ()),
      isTypeSupported = (\<lambda>candidate. Inr (candidate = ''audio/ogg;codecs=opus'')),
      newMediaRecorder =
        (\<lambda>dst m. Inr (5, case m of Some given \<Rightarrow> given | None \<Rightarrow> ''audio/mp4'')),
      recorderStart = (\<lambda>r. Inr ()),
      recorderStop = (\<lambda>r. Inr ()),
      performanceNow = 1000,
      disconnect = (\<lambda>src dst. Inr ()),
      trackStop = (\<lambda>t. Inr ()),
      ctxClose = (\<lambda>ctx. Inr ()),
      hasAtob = True,
      atob = (\<lambda>base64. Inr []),
      decodeAudioData = (\<lambda>bytes. Inr \<lparr>buf_duration = 1\<rparr>),
      createBufferSource = (\<lambda>ctx. Inr 6),
      connectOutput = (\<lambda>source. Inr ()),
      sourceStart = (\<lambda>source. Inr ())\<rparr>"

text \<open>The same platform with no supported candidate: one probe throws, the others say no.\<close>

definition default_only_platform :: platform where
  "default_only_platform =
     cooperative_platform
       \<lparr>isTypeSupported :=
          (\<lambda>candidate. if candidate = ''audio/webm'' then Inl NonErrorValue else Inr False)\<rparr>"

text \<open>The same platform, but the audio context cannot be constructed.\<close>

definition no_context_platform :: platform where
  "no_context_platform =
     cooperative_platform
       \<lparr>newAudioContext := Inl (ErrorObj ''NotSupportedError'' ''AudioContext unavailable'')\<rparr>"

text \<open>The same platform, but the encoder refuses to start.\<close>

definition refusing_encoder_platform :: platform where
  "refusing_encoder_platform =
     cooperative_platform
       \<lparr>recorderStart := (\<lambda>r. Inl (ErrorObj ''NotSupportedError'' ''encoder refused''))\<rparr>"

text \<open>A platform on which every teardown call throws.\<close>

definition hostile_platform :: platform where
  "hostile_platform =
     cooperative_platform
       \<lparr>recorderStop := (\<lambda>r. Inl NonErrorValue),
        disconnect := (\<lambda>src dst. Inl NonErrorValue),
        trackStop := (\<lambda>t. Inl NonErrorValue),
        ctxClose := (\<lambda>ctx. Inl NonErrorValue)\<rparr>"

definition sample_chunk :: blob where
  "sample_chunk = \<lparr>blob_bytes = [1, 2, 3], blob_type = ''audio/ogg;codecs=opus''\<rparr>"

text \<open>
  An instance whose encoder has already turned inactive while one chunk is held: the
  state after \<^verbatim>\<open>start\<close>, one data event and a stop request on the cooperative platform.
\<close>

definition finalized_with_data :: session_recorder where
  "finalized_with_data =
     \<lparr>audioCtx = Some 2, destination = Some 3,
      micStream = Some \<lparr>stream_id = 1, stream_tracks = [10]\<rparr>, micSource = Some 4,
      recorder = Some \<lparr>rec_id = 5, rec_state = Inactive, rec_mimeType = ''audio/ogg;codecs=opus''\<rparr>,
      chunks = [sample_chunk], mimeType = ''audio/ogg;codecs=opus'', startedAt = 1000\<rparr>"

text \<open>A module that resolves but exposes none of the three helpers.\<close>

definition bare_module :: "unit audio_module" where
  "bare_module =
     \<lparr>mod_calibrateRMS = None, mod_recordUntilSilence = None, mod_blobToBase64 = None\<rparr>"

definition sample_env :: "string \<rightharpoonup> string" where
  "sample_env =
     [''GITHUB_TOKEN'' \<mapsto> ''  ChangeMe '', ''PR_TITLE'' \<mapsto> '' Fix the recorder '',
      ''PR_BODY'' \<mapsto> ''   '']"

text \<open>The effects of the acquisition steps of \<^verbatim>\<open>start\<close> when each of them succeeds.\<close>

definition acquire_effects :: "platform \<Rightarrow> media_stream \<Rightarrow> nat \<Rightarrow> nat \<Rightarrow> nat \<Rightarrow> effect list" where
  "acquire_effects P stream ctx dst src =
     [CallGetUserMedia, Log LLog ''start:user-media-granted'', CallNewAudioContext,
      CallResume ctx, Log LLog ''start:audio-context-ready'',
      CallCreateMediaStreamDestination ctx, CallCreateMediaStreamSource ctx (stream_id stream),
      CallConnect src dst, Log LLog ''start:microphone-connected''] @
     snd (find_mime P SUPPORTED_MIME_TYPES) @
     [CallNewMediaRecorder dst (find (supported P) SUPPORTED_MIME_TYPES)]"

text \<open>
  The candidates that an effect list shows as probed, in the order of the probes.
\<close>

fun probed :: "effect list \<Rightarrow> string list" where
  "probed [] = []"
| "probed (CallIsTypeSupported c # fx) = c # probed fx"
| "probed (ev # fx) = probed fx"




text \<open>
  Two importers: one resolves every candidate to the bare module, one resolves none.
\<close>

definition bare_import :: "string \<Rightarrow> thrown + unit audio_module" where
  "bare_import candidate = Inr bare_module"

definition failing_import :: "string \<Rightarrow> thrown + unit audio_module" where
  "failing_import candidate = Inl (ErrorObj ''TypeError'' ''Failed to fetch dynamically imported module'')"

section \<open>Computations: results and effects\<close>

lemmas comp_defs = ret_def throw_def call_def recorderLog_def and_then_def try_catch_def

lemma fst_and_then: "fst (and_then m f) = (case fst m of Inl e \<Rightarrow> Inl e | Inr x \<Rightarrow> fst (f x))"
  by (auto simp: and_then_def split: prod.splits sum.splits)

lemma snd_and_then: "snd (and_then m f) = snd m @ (case fst m of Inl e \<Rightarrow> [] | Inr x \<Rightarrow> snd (f x))"
  by (auto simp: and_then_def split: prod.splits sum.splits)

lemma fst_try_catch: "fst (try_catch m h) = (case fst m of Inl e \<Rightarrow> fst (h e) | Inr x \<Rightarrow> Inr x)"
  by (auto simp: try_catch_def split: prod.splits sum.splits)

lemma snd_try_catch: "snd (try_catch m h) = snd m @ (case fst m of Inl e \<Rightarrow> snd (h e) | Inr x \<Rightarrow> [])"
  by (auto simp: try_catch_def split: prod.splits sum.splits)

lemma fst_recorderLog: "fst (recorderLog l st) = Inr ()"
  by (simp add: recorderLog_def)

lemma snd_recorderLog: "snd (recorderLog l st) = [Log l st]"
  by (simp add: recorderLog_def)

lemma fst_ret: "fst (ret x) = Inr x"
  by (simp add: ret_def)

lemma snd_ret: "snd (ret x) = []"
  by (simp add: ret_def)

lemma fst_call: "fst (call ev r) = r"
  by (simp add: call_def)

lemma snd_call: "snd (call ev r) = [ev]"
  by (simp add: call_def)

lemmas comp_sel = fst_and_then snd_and_then fst_try_catch snd_try_catch fst_recorderLog
  snd_recorderLog fst_ret snd_ret fst_call snd_call

subsection \<open>cleanup never throws\<close>

lemma cleanup_disconnect_returns: "fst (cleanup_disconnect P s) = Inr ()"
  by (simp add: cleanup_disconnect_def comp_sel split: sum.splits)

lemma cleanup_tracks_returns: "fst (cleanup_tracks P s) = Inr ()"
  by (simp add: cleanup_tracks_def comp_sel split: sum.splits option.splits)

lemma cleanup_context_returns: "fst (cleanup_context P s) = Inr ()"
  by (simp add: cleanup_context_def comp_sel split: sum.splits option.splits)

lemma cleanup_calls_returns: "fst (cleanup_calls P s) = Inr ()"
  by (simp add: cleanup_calls_def comp_sel cleanup_disconnect_returns
      cleanup_tracks_returns cleanup_context_returns)

lemma cleanup_eq: "cleanup P s = (Inr (), reset_fields s, snd (cleanup_calls P s))"
  using cleanup_calls_returns [of P s]
  by (cases "cleanup_calls P s") (auto simp: cleanup_def split: sum.splits)

lemma reset_fields_released: "handles_released (reset_fields s)"
  by (simp add: handles_released_def reset_fields_def)

lemma reset_fields_data: "chunks (reset_fields s) = [] \<and> startedAt (reset_fields s) = 0"
  by (simp add: reset_fields_def)

lemma reset_fields_not_recording: "\<not> already_recording (reset_fields s)"
  by (simp add: already_recording_def reset_fields_def)

lemma cancel_stop_returns: "fst (cancel_stop P s) = Inr ()"
  by (simp add: cancel_stop_def comp_sel split: sum.splits option.splits)

lemma cancel_eq:
  "cancel P s = (Inr (), reset_fields s, snd (cancel_stop P s) @ snd (cleanup_calls P s))"
  using cancel_stop_returns [of P s]
  by (cases "cancel_stop P s") (auto simp: cancel_def cleanup_eq split: sum.splits)

subsection \<open>Format negotiation\<close>

lemma probe_mime_result: "fst (probe_mime P c) = Inr (supported P c)"
  by (cases "isTypeSupported P c") (simp_all add: probe_mime_def supported_def comp_sel)

lemma find_mime_result: "fst (find_mime P cs) = Inr (find (supported P) cs)"
  by (induction cs) (simp_all add: comp_sel probe_mime_result)

lemma find_mime_eq: "find_mime P cs = (Inr (find (supported P) cs), snd (find_mime P cs))"
  by (rule prod_eqI) (simp_all add: find_mime_result)

lemma candidate_nonempty: "find Q SUPPORTED_MIME_TYPES = Some m \<Longrightarrow> m \<noteq> []"
  by (auto simp: SUPPORTED_MIME_TYPES_def split: if_splits)

lemma truthy_candidate:
  "(if truthy (find Q SUPPORTED_MIME_TYPES) then find Q SUPPORTED_MIME_TYPES else None) =
   find Q SUPPORTED_MIME_TYPES"
  by (cases "find Q SUPPORTED_MIME_TYPES") (auto dest: candidate_nonempty)

lemma start_acquire_grants:
  assumes "grants P stream ctx dst src rid rmime"
  shows "start_acquire P =
    (Inr \<lparr>acq_stream = stream, acq_ctx = ctx, acq_destination = dst, acq_micSource = src,
          acq_supportedMime = find (supported P) SUPPORTED_MIME_TYPES,
          acq_recorder = \<lparr>rec_id = rid, rec_state = Inactive, rec_mimeType = rmime\<rparr>\<rparr>,
     acquire_effects P stream ctx dst src)"
proof (rule prod_eqI)
  show "fst (start_acquire P) = fst (Inr \<lparr>acq_stream = stream, acq_ctx = ctx, acq_destination = dst, acq_micSource = src,
          acq_supportedMime = find (supported P) SUPPORTED_MIME_TYPES,
          acq_recorder = \<lparr>rec_id = rid, rec_state = Inactive, rec_mimeType = rmime\<rparr>\<rparr>,
     acquire_effects P stream ctx dst src)"
    using assms
    by (simp add: start_acquire_def grants_def comp_sel find_mime_result truthy_candidate)
  show "snd (start_acquire P) = snd (Inr \<lparr>acq_stream = stream, acq_ctx = ctx, acq_destination = dst, acq_micSource = src,
          acq_supportedMime = find (supported P) SUPPORTED_MIME_TYPES,
          acq_recorder = \<lparr>rec_id = rid, rec_state = Inactive, rec_mimeType = rmime\<rparr>\<rparr>,
     acquire_effects P stream ctx dst src)"
    using assms
    by (simp add: start_acquire_def grants_def comp_sel find_mime_result truthy_candidate
        acquire_effects_def)
qed

lemma start_succeeds:
  assumes "grants P stream ctx dst src rid rmime" and "\<not> already_recording s"
  shows "start P s =
    (Inr (), started_state P stream ctx dst src rid rmime s,
     Log LLog ''start:requesting-user-media'' # acquire_effects P stream ctx dst src @
     [CallRecorderStart rid, Log LLog ''start:recording-began''])"
  using assms
  by (simp add: start_def start_try_def start_acquire_grants [OF assms(1)] grants_def
      assign_fields_def started_state_def)

lemma start_success_recording:
  assumes "start P s = (Inr (), s', fx)"
  shows "already_recording s'"
proof (cases "hasWindow P \<and> \<not> already_recording s")
  case False
  with assms show ?thesis by (auto simp: start_def split: if_splits)
next
  case True
  with assms show ?thesis
    by (auto simp: start_def start_try_def cleanup_eq already_recording_def Let_def
        split: prod.splits sum.splits)
qed

lemma start_failure_resets:
  assumes "hasWindow P" and "start P s = (Inl e, s', fx)"
  shows "handles_released s' \<and> chunks s' = [] \<and> startedAt s' = 0 \<and> is_Error e \<and> \<not> already_recording s'"
  using assms
  by (auto simp: start_def start_try_def cleanup_eq Let_def rethrown_def new_Error_def
      reset_fields_released reset_fields_not_recording reset_fields_data
      split: prod.splits sum.splits if_splits)

section \<open>Evaluation on concrete inputs\<close>

lemmas start_defs = start_def start_try_def start_acquire_def probe_mime_def
  SUPPORTED_MIME_TYPES_def assign_fields_def negotiated_mime_def already_recording_def
  rethrown_def

lemmas cleanup_defs = cleanup_def cleanup_calls_def cleanup_disconnect_def cleanup_tracks_def
  cleanup_context_def reset_fields_def

lemma cooperative_grants:
  "grants cooperative_platform \<lparr>stream_id = 1, stream_tracks = [10]\<rparr> 2 3 4 5 ''audio/ogg;codecs=opus''"
  by (simp add: grants_def cooperative_platform_def supported_def SUPPORTED_MIME_TYPES_def)

lemma fresh_not_recording: "\<not> already_recording createSessionRecorder"
  by (simp add: already_recording_def createSessionRecorder_def)

subsection \<open>Probes\<close>

lemma probed_append: "probed (fx @ fx') = probed fx @ probed fx'"
  by (induction fx rule: probed.induct) simp_all

lemma probed_probe_mime: "probed (snd (probe_mime P c)) = [c]"
  by (cases "isTypeSupported P c") (simp_all add: probe_mime_def comp_sel)

lemma probed_find_mime:
  "probed (snd (find_mime P cs)) =
     takeWhile (\<lambda>c. \<not> supported P c) cs @ take 1 (dropWhile (\<lambda>c. \<not> supported P c) cs)"
  by (induction cs) (simp_all add: comp_sel probed_append probed_probe_mime probe_mime_result)

lemma probed_acquire:
  "probed (acquire_effects P stream ctx dst src) = probed (snd (find_mime P SUPPORTED_MIME_TYPES))"
  by (simp add: acquire_effects_def probed_append)

lemma default_only_grants:
  "grants default_only_platform \<lparr>stream_id = 1, stream_tracks = [10]\<rparr> 2 3 4 5 ''audio/mp4''"
  by (simp add: grants_def default_only_platform_def cooperative_platform_def supported_def
      SUPPORTED_MIME_TYPES_def)

lemma cooperative_first_supported:
  "find (supported cooperative_platform) SUPPORTED_MIME_TYPES = Some ''audio/ogg;codecs=opus''"
  by (simp add: cooperative_platform_def supported_def SUPPORTED_MIME_TYPES_def)

lemma default_only_first_supported:
  "find (supported default_only_platform) SUPPORTED_MIME_TYPES = None"
  by (simp add: default_only_platform_def cooperative_platform_def supported_def
      SUPPORTED_MIME_TYPES_def)

subsection \<open>Failures inside start\<close>

lemma start_acquire_failure:
  assumes "hasWindow P" and "\<not> already_recording s" and "start_acquire P = (Inl e, fx)"
  shows "start P s =
    (Inl (rethrown e), reset_fields s,
     Log LLog ''start:requesting-user-media'' # fx @ Log LError ''start:failed'' #
     snd (cleanup_calls P s))"
  using assms by (simp add: start_def start_try_def cleanup_eq)

subsection \<open>Teardown: what is attempted and what is logged\<close>









lemma snd_cleanup_calls:
  "snd (cleanup_calls P s) =
     Log LLog ''cleanup:begin'' # snd (cleanup_disconnect P s) @ snd (cleanup_tracks P s) @
     snd (cleanup_context P s)"
  by (simp add: cleanup_calls_def comp_sel cleanup_disconnect_returns cleanup_tracks_returns)

subsection \<open>A failed acquisition stops no track\<close>

lemma probe_mime_no_track_stop: "CallTrackStop t \<notin> set (snd (probe_mime P c))"
  by (cases "isTypeSupported P c") (simp_all add: probe_mime_def comp_sel)

lemma find_mime_no_track_stop: "CallTrackStop t \<notin> set (snd (find_mime P cs))"
  by (induction cs) (simp_all add: comp_sel probe_mime_no_track_stop probe_mime_result)

lemma start_acquire_no_track_stop: "CallTrackStop t \<notin> set (snd (start_acquire P))"
  by (simp add: start_acquire_def comp_sel find_mime_no_track_stop find_mime_result
      split: sum.splits)

lemma cleanup_without_stream_no_track_stop:
  assumes "micStream s = None"
  shows "CallTrackStop t \<notin> set (snd (cleanup_calls P s))"
  using assms
  by (simp add: snd_cleanup_calls cleanup_disconnect_def cleanup_tracks_def cleanup_context_def
      comp_sel split: option.splits sum.splits)

lemma start_acquire_failure_never_stops_tracks:
  assumes "hasWindow P" and "\<not> already_recording s" and "micStream s = None"
    and "fst (start_acquire P) = Inl e"
  shows "CallTrackStop t \<notin> set (snd (snd (start P s)))"
proof -
  from assms(4) have "start_acquire P = (Inl e, snd (start_acquire P))"
    by (metis prod.collapse)
  from start_acquire_failure [OF assms(1,2) this] show ?thesis
    by (simp add: start_acquire_no_track_stop cleanup_without_stream_no_track_stop [OF assms(3)])
qed

subsection \<open>Data events and stop\<close>











subsection \<open>The audio bridge\<close>

lemma getModule_result:
  "fst (getModule imp) =
     (case imp ''../src/lib/audio.js'' of
        Inr md \<Rightarrow> Inr md
      | Inl e \<Rightarrow>
          (case imp ''../src/lib/audio'' of
             Inr md \<Rightarrow> Inr md
           | Inl e' \<Rightarrow> Inl (new_Error import_exhausted_message)))"
  by (simp add: getModule_def comp_sel logAudioBridgeDiagnostic_def throw_def
      split: sum.splits)

subsection \<open>The pull-request script\<close>

lemma requireEnv_cases:
  "requireEnv rt env name =
     (case env name of
        None \<Rightarrow> Inl (new_Error (''Missing required environment variable: '' @ name))
      | Some raw \<Rightarrow>
          if str_trim rt raw = [] then
            Inl (new_Error (''Environment variable '' @ name @ '' is empty''))
          else if str_toLowerCase rt (str_trim rt raw) \<in> {''default'', ''changeme'', ''placeholder''} then
            Inl (new_Error (''Environment variable '' @ name @
                            '' is using a placeholder value: '' @ str_trim rt raw))
          else Inr (str_trim rt raw))"
  by (simp add: requireEnv_def placeholder_values_def Let_def split: option.splits)

lemma main_fails:
  assumes "name \<in> set required_names" and "isl (requireEnv rt env name)"
  shows "isl (main rt env rest)"
  using assms
  by (auto simp: required_names_def main_def or_else_def isl_def split: sum.splits)

lemma sample_env_values:
  "sample_env ''GITHUB_TOKEN'' = Some ''  ChangeMe ''
   \<and> sample_env ''PR_TITLE'' = Some '' Fix the recorder ''
   \<and> sample_env ''PR_BODY'' = Some ''   ''
   \<and> sample_env ''PR_HEAD'' = None"
  by (simp add: sample_env_def)

lemma ascii_samples:
  "str_trim ascii_strings ''  ChangeMe '' = ''ChangeMe''
   \<and> str_toLowerCase ascii_strings ''ChangeMe'' = ''changeme''
   \<and> str_trim ascii_strings '' Fix the recorder '' = ''Fix the recorder''
   \<and> str_toLowerCase ascii_strings ''Fix the recorder'' = ''fix the recorder''
   \<and> str_trim ascii_strings ''   '' = []"
  by code_simp

section \<open>The claims\<close>

text \<open>
  Claim C1. The candidate list is Opus-in-WebM, plain WebM, Opus-in-Ogg, plain Ogg, in
  this order. On a platform that lets the other sub-steps of \<^verbatim>\<open>start\<close> succeed, a
  \<^verbatim>\<open>start()\<close> on an instance that is not recording probes the candidates from the
  front up to and including the first supported one, succeeds, constructs the encoder
  with that candidate, or with no format at all (the platform default) when no
  candidate is supported or the probes throw, and leaves as the session's mime type the
  selected candidate, else the encoder's own \<^verbatim>\<open>mimeType\<close>, else \<open>audio/webm\<close>. The selected
  candidate is the first supported element of the list; the selection is empty exactly
  when no element is supported.
\<close>

theorem start_negotiates_format:
  assumes "grants P stream ctx dst src rid rmime" and "\<not> already_recording s"
  shows "SUPPORTED_MIME_TYPES =
      [''audio/webm;codecs=opus'', ''audio/webm'', ''audio/ogg;codecs=opus'', ''audio/ogg'']
    \<and> probed (snd (snd (start P s))) =
        takeWhile (\<lambda>c. \<not> supported P c) SUPPORTED_MIME_TYPES @
        take 1 (dropWhile (\<lambda>c. \<not> supported P c) SUPPORTED_MIME_TYPES)
    \<and> fst (start P s) = Inr ()
    \<and> CallNewMediaRecorder dst (find (supported P) SUPPORTED_MIME_TYPES) \<in> set (snd (snd (start P s)))
    \<and> mimeType (fst (snd (start P s))) =
        (case find (supported P) SUPPORTED_MIME_TYPES of
           Some m \<Rightarrow> m
         | None \<Rightarrow> if rmime \<noteq> [] then rmime else ''audio/webm'')
    \<and> (\<forall>m. find (supported P) SUPPORTED_MIME_TYPES = Some m \<longleftrightarrow>
          (\<exists>i<length SUPPORTED_MIME_TYPES. SUPPORTED_MIME_TYPES ! i = m \<and> supported P m \<and>
             (\<forall>j<i. \<not> supported P (SUPPORTED_MIME_TYPES ! j))))
    \<and> (find (supported P) SUPPORTED_MIME_TYPES = None \<longleftrightarrow>
          (\<forall>c\<in>set SUPPORTED_MIME_TYPES. \<not> supported P c))"
proof -
  note run = start_succeeds [OF assms]
  have order: "SUPPORTED_MIME_TYPES =
      [''audio/webm;codecs=opus'', ''audio/webm'', ''audio/ogg;codecs=opus'', ''audio/ogg'']"
    by (simp add: SUPPORTED_MIME_TYPES_def)
  have probes: "probed (snd (snd (start P s))) =
        takeWhile (\<lambda>c. \<not> supported P c) SUPPORTED_MIME_TYPES @
        take 1 (dropWhile (\<lambda>c. \<not> supported P c) SUPPORTED_MIME_TYPES)"
    by (simp add: run probed_append probed_acquire probed_find_mime)
  have ok: "fst (start P s) = Inr ()"
    by (simp add: run)
  have made: "CallNewMediaRecorder dst (find (supported P) SUPPORTED_MIME_TYPES)
      \<in> set (snd (snd (start P s)))"
    by (simp add: run acquire_effects_def)
  have mime: "mimeType (fst (snd (start P s))) =
        (case find (supported P) SUPPORTED_MIME_TYPES of
           Some m \<Rightarrow> m
         | None \<Rightarrow> if rmime \<noteq> [] then rmime else ''audio/webm'')"
    by (auto simp: run started_state_def negotiated_mime_def split: option.splits
        dest: candidate_nonempty)
  have first: "\<forall>m. find (supported P) SUPPORTED_MIME_TYPES = Some m \<longleftrightarrow>
          (\<exists>i<length SUPPORTED_MIME_TYPES. SUPPORTED_MIME_TYPES ! i = m \<and> supported P m \<and>
             (\<forall>j<i. \<not> supported P (SUPPORTED_MIME_TYPES ! j)))"
    by (auto simp: find_Some_iff)
  have none: "find (supported P) SUPPORTED_MIME_TYPES = None \<longleftrightarrow>
          (\<forall>c\<in>set SUPPORTED_MIME_TYPES. \<not> supported P c)"
    by (auto simp: find_None_iff)
  from order probes ok made mime first none show ?thesis by blast
qed

theorem start_negotiates_format_witness:
  "grants cooperative_platform \<lparr>stream_id = 1, stream_tracks = [10]\<rparr> 2 3 4 5 ''audio/ogg;codecs=opus''
   \<and> fst (start cooperative_platform createSessionRecorder) = Inr ()
   \<and> CallNewMediaRecorder 3 (Some ''audio/ogg;codecs=opus'')
        \<in> set (snd (snd (start cooperative_platform createSessionRecorder)))
   \<and> mimeType (fst (snd (start cooperative_platform createSessionRecorder))) = ''audio/ogg;codecs=opus''
   \<and> grants default_only_platform \<lparr>stream_id = 1, stream_tracks = [10]\<rparr> 2 3 4 5 ''audio/mp4''
   \<and> fst (start default_only_platform createSessionRecorder) = Inr ()
   \<and> CallNewMediaRecorder 3 None \<in> set (snd (snd (start default_only_platform createSessionRecorder)))
   \<and> mimeType (fst (snd (start default_only_platform createSessionRecorder))) = ''audio/mp4''"
  using start_negotiates_format [OF cooperative_grants fresh_not_recording]
    start_negotiates_format [OF default_only_grants fresh_not_recording]
    cooperative_grants default_only_grants
  by (simp add: cooperative_first_supported default_only_first_supported)

text \<open>
  Claim C2. On an instance without an encoder handle, \<^verbatim>\<open>stop()\<close> is rejected with the
  error \<open>Recorder not started\<close> and returns no result: on a fresh instance, on an
  instance whose resources \<^verbatim>\<open>cleanup\<close> has released, and in general whenever the
  \<open>recorder\<close> field is \<^verbatim>\<open>null\<close>. The state is left as it was and nothing is called.
\<close>

theorem stop_without_encoder_rejects:
  "stop P events createSessionRecorder =
     (Rejected (new_Error ''Recorder not started''), createSessionRecorder, [])
   \<and> fst (stop P events (fst (snd (cleanup P' s')))) = Rejected (new_Error ''Recorder not started'')
   \<and> (recorder s = None \<longrightarrow>
        stop P events s = (Rejected (new_Error ''Recorder not started''), s, []))"
  by (simp add: stop_def stop_request_def createSessionRecorder_def cleanup_eq reset_fields_def)

theorem stop_without_encoder_rejects_witness:
  "recorder (fst (snd (cancel hostile_platform finalized_with_data))) = None
   \<and> stop cooperative_platform [Some sample_chunk]
        (fst (snd (cancel hostile_platform finalized_with_data))) =
      (Rejected (ErrorObj ''Error'' ''Recorder not started''),
       fst (snd (cancel hostile_platform finalized_with_data)), [])"
proof -
  have r: "recorder (fst (snd (cancel hostile_platform finalized_with_data))) = None"
    by (simp add: cancel_eq reset_fields_def)
  from r stop_without_encoder_rejects
    [of cooperative_platform "[Some sample_chunk]" hostile_platform finalized_with_data
        "fst (snd (cancel hostile_platform finalized_with_data))"]
  show ?thesis by (simp add: new_Error_def)
qed

text \<open>
  Claim C3. Where \<^verbatim>\<open>window\<close> is defined, a \<^verbatim>\<open>start()\<close> on an instance that is
  recording (in particular, on the state a successful \<^verbatim>\<open>start()\<close> has just left)
  returns successfully, leaves the state as it is, and does nothing but write the line
  \<open>start:already-recording\<close>: no platform capability is called.
\<close>

theorem start_while_recording_is_noop:
  assumes "hasWindow P"
    and "already_recording s \<or> (\<exists>P0 s0 fx0. start P0 s0 = (Inr (), s, fx0))"
  shows "start P s = (Inr (), s, [Log LLog ''start:already-recording''])"
proof -
  from assms(2) have "already_recording s"
    by (auto dest: start_success_recording)
  with assms(1) show ?thesis by (simp add: start_def)
qed

theorem start_while_recording_is_noop_witness:
  "hasWindow cooperative_platform
   \<and> fst (start cooperative_platform createSessionRecorder) = Inr ()
   \<and> start cooperative_platform (fst (snd (start cooperative_platform createSessionRecorder))) =
      (Inr (), fst (snd (start cooperative_platform createSessionRecorder)),
       [Log LLog ''start:already-recording''])"
proof -
  have w: "hasWindow cooperative_platform"
    by (simp add: cooperative_platform_def)
  have first: "fst (start cooperative_platform createSessionRecorder) = Inr ()"
    by (simp add: start_succeeds [OF cooperative_grants fresh_not_recording])
  then have "start cooperative_platform createSessionRecorder =
      (Inr (), fst (snd (start cooperative_platform createSessionRecorder)),
       snd (snd (start cooperative_platform createSessionRecorder)))"
    by (metis prod.collapse)
  then have "\<exists>P0 s0 fx0. start P0 s0 =
      (Inr (), fst (snd (start cooperative_platform createSessionRecorder)), fx0)"
    by blast
  with w first start_while_recording_is_noop [of cooperative_platform
      "fst (snd (start cooperative_platform createSessionRecorder))"]
  show ?thesis by blast
qed

text \<open>
  Claim C4, evaluated where it fails. On a fresh instance, \<^verbatim>\<open>getUserMedia\<close> hands out a
  stream with the live track 10 and the construction of the audio context throws.
  \<^verbatim>\<open>start()\<close> re-raises the error and leaves every field as in a fresh instance, but
  \<^verbatim>\<open>cleanup\<close> reads the fields, which are assigned only after the encoder has been
  constructed: the stream is still a local of the \<^verbatim>\<open>try\<close> block, and its track is never
  stopped. When the failure comes from \<^verbatim>\<open>recorder.start()\<close> instead, after the fields
  have been assigned, the same track is stopped.
\<close>

theorem start_failure_leaves_stream_open:
  "getUserMedia no_context_platform = Inr \<lparr>stream_id = 1, stream_tracks = [10]\<rparr>
   \<and> start no_context_platform createSessionRecorder =
     (Inl (ErrorObj ''NotSupportedError'' ''AudioContext unavailable''), createSessionRecorder,
      [Log LLog ''start:requesting-user-media'', CallGetUserMedia,
       Log LLog ''start:user-media-granted'', CallNewAudioContext,
       Log LError ''start:failed'', Log LLog ''cleanup:begin''])
   \<and> CallTrackStop 10 \<notin> set (snd (snd (start no_context_platform createSessionRecorder)))
   \<and> CallTrackStop 10 \<in> set (snd (snd (start refusing_encoder_platform createSessionRecorder)))"
  by (simp add: start_defs cleanup_defs comp_defs createSessionRecorder_def
      no_context_platform_def refusing_encoder_platform_def cooperative_platform_def)

text \<open>
  Claim C5. When the encoder handle exists and the encoder is inactive, \<^verbatim>\<open>stop()\<close>
  resolves at once with an empty blob, duration 0 and the session's mime type; the
  state is left as it was.
\<close>

theorem stop_on_inactive_encoder_is_empty:
  assumes "recorder s = Some r" and "rec_state r = Inactive"
  shows "stop P events s =
    (Fulfilled \<lparr>res_blob = \<lparr>blob_bytes = [], blob_type = mimeType s\<rparr>,
                res_mimeType = mimeType s, res_durationMs = 0\<rparr>, s, [])"
  using assms by (simp add: stop_def stop_request_def empty_result_def new_Blob_def)

theorem stop_on_inactive_encoder_is_empty_witness:
  "stop cooperative_platform [] finalized_with_data =
    (Fulfilled \<lparr>res_blob = \<lparr>blob_bytes = [], blob_type = ''audio/ogg;codecs=opus''\<rparr>,
                res_mimeType = ''audio/ogg;codecs=opus'', res_durationMs = 0\<rparr>,
     finalized_with_data, [])"
  using stop_on_inactive_encoder_is_empty [of finalized_with_data
      "\<lparr>rec_id = 5, rec_state = Inactive, rec_mimeType = ''audio/ogg;codecs=opus''\<rparr>"
      cooperative_platform "[]"]
  by (simp add: finalized_with_data_def)



text \<open>
  Claim C7. Without an audio context or without a mixing destination,
  \<^verbatim>\<open>playAssistantBase64\<close> is rejected with the error \<open>Recorder not started\<close> for every
  payload; its only effect is the diagnostic line, so nothing is decoded or played.
\<close>

theorem play_without_graph_rejects:
  assumes "audioCtx s = None \<or> destination s = None"
  shows "playAssistantBase64 P base64 mime s =
    (Inl (new_Error ''Recorder not started''), [Log LError ''play:missing-context''])"
  using assms
  by (auto simp: playAssistantBase64_def and_then_def recorderLog_def throw_def
      split: option.splits)

theorem play_without_graph_rejects_witness:
  "playAssistantBase64 cooperative_platform ''AAAA'' None createSessionRecorder =
     (Inl (ErrorObj ''Error'' ''Recorder not started''), [Log LError ''play:missing-context''])
   \<and> playAssistantBase64 cooperative_platform ''AAAA'' None
        (fst (snd (cancel cooperative_platform finalized_with_data))) =
     (Inl (ErrorObj ''Error'' ''Recorder not started''), [Log LError ''play:missing-context''])"
proof -
  have a: "audioCtx createSessionRecorder = None \<or> destination createSessionRecorder = None"
    by (simp add: createSessionRecorder_def)
  have b: "audioCtx (fst (snd (cancel cooperative_platform finalized_with_data))) = None \<or>
           destination (fst (snd (cancel cooperative_platform finalized_with_data))) = None"
    by (simp add: cancel_eq reset_fields_def)
  from play_without_graph_rejects [OF a] play_without_graph_rejects [OF b]
  show ?thesis by (simp add: new_Error_def)
qed

text \<open>
  Claim C8, as amended. When neither candidate location resolves, each of
  \<^verbatim>\<open>calibrateRMS\<close>, \<^verbatim>\<open>recordUntilSilence\<close> and \<^verbatim>\<open>blobToBase64\<close> fails with the error
  that names the missing helpers. When a module resolves but lacks the function,
  \<^verbatim>\<open>recordUntilSilence\<close> fails with \<open>Audio recording unavailable\<close>, while \<^verbatim>\<open>calibrateRMS\<close>
  returns 0 and \<^verbatim>\<open>blobToBase64\<close> returns the empty string.
\<close>

theorem audio_bridge_failures:
  "(isl (imp ''../src/lib/audio.js'') \<and> isl (imp ''../src/lib/audio'') \<longrightarrow>
      fst (calibrateRMS imp seconds) = Inl (new_Error import_exhausted_message) \<and>
      fst (recordUntilSilence imp args) = Inl (new_Error import_exhausted_message) \<and>
      fst (blobToBase64 imp b) = Inl (new_Error import_exhausted_message))
   \<and> (fst (getModule imp) = Inr md \<longrightarrow>
        (mod_recordUntilSilence md = None \<longrightarrow>
           fst (recordUntilSilence imp args) = Inl (new_Error ''Audio recording unavailable'')) \<and>
        (mod_calibrateRMS md = None \<longrightarrow> fst (calibrateRMS imp seconds) = Inr 0) \<and>
        (mod_blobToBase64 md = None \<longrightarrow> fst (blobToBase64 imp b) = Inr []))"
proof -
  have exhausted: "isl (imp ''../src/lib/audio.js'') \<and> isl (imp ''../src/lib/audio'') \<longrightarrow>
      fst (calibrateRMS imp seconds) = Inl (new_Error import_exhausted_message) \<and>
      fst (recordUntilSilence imp args) = Inl (new_Error import_exhausted_message) \<and>
      fst (blobToBase64 imp b) = Inl (new_Error import_exhausted_message)"
    by (auto simp: calibrateRMS_def recordUntilSilence_def blobToBase64_def fst_and_then
        getModule_result isl_def)
  have missing: "fst (getModule imp) = Inr md \<longrightarrow>
        (mod_recordUntilSilence md = None \<longrightarrow>
           fst (recordUntilSilence imp args) = Inl (new_Error ''Audio recording unavailable'')) \<and>
        (mod_calibrateRMS md = None \<longrightarrow> fst (calibrateRMS imp seconds) = Inr 0) \<and>
        (mod_blobToBase64 md = None \<longrightarrow> fst (blobToBase64 imp b) = Inr [])"
    by (simp add: calibrateRMS_def recordUntilSilence_def blobToBase64_def fst_and_then
        throw_def ret_def)
  from exhausted missing show ?thesis by blast
qed

theorem audio_bridge_failures_witness:
  "isl (failing_import ''../src/lib/audio.js'') \<and> isl (failing_import ''../src/lib/audio'')
   \<and> fst (calibrateRMS failing_import None) = Inl (new_Error import_exhausted_message)
   \<and> fst (recordUntilSilence failing_import ()) = Inl (new_Error import_exhausted_message)
   \<and> fst (blobToBase64 failing_import sample_chunk) = Inl (new_Error import_exhausted_message)
   \<and> fst (getModule bare_import) = Inr bare_module
   \<and> fst (recordUntilSilence bare_import ()) = Inl (new_Error ''Audio recording unavailable'')
   \<and> fst (calibrateRMS bare_import (Some 3)) = Inr 0
   \<and> fst (blobToBase64 bare_import sample_chunk) = Inr []"
proof -
  have f: "isl (failing_import ''../src/lib/audio.js'') \<and> isl (failing_import ''../src/lib/audio'')"
    by (simp add: failing_import_def)
  have g: "fst (getModule bare_import) = Inr bare_module"
    by (simp add: getModule_result bare_import_def)
  have m: "mod_recordUntilSilence bare_module = None \<and> mod_calibrateRMS bare_module = None
      \<and> mod_blobToBase64 bare_module = None"
    by (simp add: bare_module_def)
  from f g m
    audio_bridge_failures [of failing_import None "()" sample_chunk bare_module]
    audio_bridge_failures [of bare_import "Some 3" "()" sample_chunk bare_module]
  show ?thesis by simp
qed

text \<open>
  Claim C8 as stated fails: on a module that resolves without \<^verbatim>\<open>calibrateRMS\<close> and
  without \<^verbatim>\<open>blobToBase64\<close>, the two entry points return 0 and the empty string.
\<close>

theorem missing_helper_does_not_fail_counterexample:
  "fst (getModule bare_import) = Inr bare_module
   \<and> mod_calibrateRMS bare_module = None
   \<and> calibrateRMS bare_import None =
       (Inr 0, [Log LLog ''attempt-import'', CallImport ''../src/lib/audio.js'',
                Log LLog ''import-success''])
   \<and> \<not> isl (fst (calibrateRMS bare_import None))
   \<and> mod_blobToBase64 bare_module = None
   \<and> blobToBase64 bare_import sample_chunk =
       (Inr [], [Log LLog ''attempt-import'', CallImport ''../src/lib/audio.js'',
                 Log LLog ''import-success''])
   \<and> \<not> isl (fst (blobToBase64 bare_import sample_chunk))"
  by (simp add: calibrateRMS_def blobToBase64_def getModule_def bare_import_def bare_module_def
      comp_defs logAudioBridgeDiagnostic_def)

text \<open>
  Claim C9. \<^verbatim>\<open>requireEnv\<close> throws exactly when the variable is unset, its trimmed value
  is empty, or its trimmed value in lower case is \<open>default\<close>, \<open>changeme\<close> or
  \<open>placeholder\<close>; otherwise it returns the trimmed value. When it throws for one of
  the nine required names, \<^verbatim>\<open>main\<close> rejects and the process exits with status 1.
\<close>

theorem requireEnv_rejects_exactly:
  "(isl (requireEnv rt env name) \<longleftrightarrow>
      env name = None \<or>
      (\<exists>raw. env name = Some raw \<and>
         (str_trim rt raw = [] \<or>
          str_toLowerCase rt (str_trim rt raw) \<in> {''default'', ''changeme'', ''placeholder''})))
   \<and> (\<forall>raw. env name = Some raw \<and> \<not> isl (requireEnv rt env name) \<longrightarrow>
         requireEnv rt env name = Inr (str_trim rt raw))
   \<and> (name \<in> set required_names \<and> isl (requireEnv rt env name) \<longrightarrow>
         isl (main rt env rest) \<and> exit_status rt env rest = 1)"
proof -
  have rejects: "isl (requireEnv rt env name) \<longleftrightarrow>
      env name = None \<or>
      (\<exists>raw. env name = Some raw \<and>
         (str_trim rt raw = [] \<or>
          str_toLowerCase rt (str_trim rt raw) \<in> {''default'', ''changeme'', ''placeholder''}))"
    by (cases "env name") (simp_all add: requireEnv_cases)
  have accepts: "\<forall>raw. env name = Some raw \<and> \<not> isl (requireEnv rt env name) \<longrightarrow>
         requireEnv rt env name = Inr (str_trim rt raw)"
    by (auto simp: requireEnv_cases split: if_splits)
  have exits: "name \<in> set required_names \<and> isl (requireEnv rt env name) \<longrightarrow>
         isl (main rt env rest) \<and> exit_status rt env rest = 1"
    using main_fails [of name rt env rest]
    by (auto simp: exit_status_def isl_def)
  from rejects accepts exits show ?thesis by blast
qed

theorem requireEnv_rejects_exactly_witness:
  "isl (requireEnv ascii_strings sample_env ''GITHUB_TOKEN'')
   \<and> isl (requireEnv ascii_strings sample_env ''PR_BODY'')
   \<and> isl (requireEnv ascii_strings sample_env ''PR_HEAD'')
   \<and> requireEnv ascii_strings sample_env ''PR_TITLE'' = Inr ''Fix the recorder''
   \<and> ''GITHUB_TOKEN'' \<in> set required_names
   \<and> exit_status ascii_strings sample_env (\<lambda>settings. Inr ()) = 1"
proof -
  have n: "''GITHUB_TOKEN'' \<in> set required_names"
    by (simp add: required_names_def)
  from n sample_env_values ascii_samples
    requireEnv_rejects_exactly [of ascii_strings sample_env "''GITHUB_TOKEN''" "\<lambda>settings. Inr ()"]
    requireEnv_rejects_exactly [of ascii_strings sample_env "''PR_BODY''" "\<lambda>settings. Inr ()"]
    requireEnv_rejects_exactly [of ascii_strings sample_env "''PR_HEAD''" "\<lambda>settings. Inr ()"]
    requireEnv_rejects_exactly [of ascii_strings sample_env "''PR_TITLE''" "\<lambda>settings. Inr ()"]
  show ?thesis by simp
qed




end
